theory Spec2Isabelle
  imports Complex_Main
begin

section \<open>The generic water heater: data model\<close>

text \<open>
  The development embeds \<^verbatim>\<open>custom_components/generic_water_heater/water_heater.py\<close>.
  Python floats are values of a type \<open>'f\<close> that is left open; their subtraction, absolute
  value, comparisons and truth value are parameters of the platform, so that rounding, NaN
  and the infinities are whatever the platform makes them. An attribute that may hold
  \<^verbatim>\<open>None\<close> is an \<open>option\<close>. Each coroutine is modelled as running to
  completion without interleaving, as the host's dispatcher serialises the reactions.
\<close>

subsection \<open>Constants of \<^verbatim>\<open>homeassistant.const\<close>\<close>

abbreviation STATE_ON :: string where "STATE_ON \<equiv> ''on''"
abbreviation STATE_OFF :: string where "STATE_OFF \<equiv> ''off''"
abbreviation STATE_UNAVAILABLE :: string where "STATE_UNAVAILABLE \<equiv> ''unavailable''"
abbreviation STATE_UNKNOWN :: string where "STATE_UNKNOWN \<equiv> ''unknown''"
abbreviation SERVICE_TURN_ON :: string where "SERVICE_TURN_ON \<equiv> ''turn_on''"
abbreviation SERVICE_TURN_OFF :: string where "SERVICE_TURN_OFF \<equiv> ''turn_off''"
abbreviation ATTR_TEMPERATURE :: string where "ATTR_TEMPERATURE \<equiv> ''temperature''"
abbreviation HA_DOMAIN :: string where "HA_DOMAIN \<equiv> ''homeassistant''"

subsection \<open>Values, host states, exceptions\<close>

text \<open>A value stored in a state's attribute dictionary.\<close>

datatype 'f pyval = PNone | PNum 'f | PStr string

text \<open>A \<^verbatim>\<open>homeassistant.core.State\<close>: the state string and the attribute dictionary.\<close>

record 'f hstate =
  state :: string
  attributes :: "string \<rightharpoonup> 'f pyval"

datatype exn = TypeError | ValueError

text \<open>
  What the module imports from the platform and from Python, taken as parameters:
  the two default limits, the unit they are given in, the unit conversion, the
  builtin \<^verbatim>\<open>float\<close> on strings (\<open>None\<close> where it raises \<^verbatim>\<open>ValueError\<close>), and the
  operations on floats the module uses: \<^verbatim>\<open>a - b\<close>, \<^verbatim>\<open>abs(a)\<close>, \<^verbatim>\<open>a > b\<close>, \<^verbatim>\<open>a < b\<close> and the
  truth value of a float (\<^verbatim>\<open>not a\<close> holds of a zero).
\<close>

record 'f platform =
  DEFAULT_MIN_TEMP :: 'f
  DEFAULT_MAX_TEMP :: 'f
  TEMP_FAHRENHEIT :: string
  convert :: "'f \<Rightarrow> string \<Rightarrow> string \<Rightarrow> 'f"
  float_of_str :: "string \<Rightarrow> 'f option"
  float_sub :: "'f \<Rightarrow> 'f \<Rightarrow> 'f"
  float_abs :: "'f \<Rightarrow> 'f"
  float_gt :: "'f \<Rightarrow> 'f \<Rightarrow> bool"
  float_lt :: "'f \<Rightarrow> 'f \<Rightarrow> bool"
  float_is_zero :: "'f \<Rightarrow> bool"

text \<open>\<^verbatim>\<open>dict.get(key)\<close>: \<^verbatim>\<open>None\<close> for a missing key.\<close>

definition dict_get :: "(string \<rightharpoonup> 'f pyval) \<Rightarrow> string \<Rightarrow> 'f pyval" where
  "dict_get d k = (case d k of None \<Rightarrow> PNone | Some v \<Rightarrow> v)"

text \<open>The builtin \<^verbatim>\<open>float(x)\<close>.\<close>

fun py_float :: "'f platform \<Rightarrow> 'f pyval \<Rightarrow> exn + 'f" where
  "py_float pl (PNum r) = Inr r"
| "py_float pl (PStr s) =
     (case float_of_str pl s of None \<Rightarrow> Inl ValueError | Some r \<Rightarrow> Inr r)"
| "py_float pl PNone = Inl TypeError"

subsection \<open>The entity\<close>

text \<open>The instance attributes of \<^verbatim>\<open>GenericWaterHeater\<close> (\<^verbatim>\<open>self._x\<close> is \<open>self_x\<close>).\<close>

record 'f entity =
  self_attr_name :: string
  self_heater_entity_id :: string
  self_sensor_entity_id :: string
  self_target_temperature :: "'f option"
  self_temperature_delta :: "'f option"
  self_min_temp :: "'f option"
  self_max_temp :: "'f option"
  self_unit_of_measurement :: string
  self_current_operation :: string
  self_current_temperature :: "'f option"
  self_operation_list :: "string list"
  self_attr_available :: bool
  self_attr_should_poll :: bool

text \<open>
  The trace records, in order, the entries of the three internal coroutines and the
  effects the host sees: the failsafe warning, a service call (service and target
  entity), and the publication of the entity's state.
\<close>

datatype 'f event =
    Enter_control_heating
  | Enter_heater_turn_on
  | Enter_heater_turn_off
  | Log_warning
  | Service_call string string string
  | Write_ha_state "'f entity"

text \<open>
  The entity together with what it reads from the host: the state machine
  (\<^verbatim>\<open>hass.states\<close>), the snapshot \<^verbatim>\<open>async_get_last_state\<close> returns, and the trace.
\<close>

record 'f world =
  ent :: "'f entity"
  hass_states :: "string \<rightharpoonup> 'f hstate"
  last_state :: "'f hstate option"
  trace :: "'f event list"

section \<open>Operations\<close>

definition init ::
  "string \<Rightarrow> string \<Rightarrow> string \<Rightarrow> 'f option \<Rightarrow> 'f option \<Rightarrow> 'f option \<Rightarrow>
   'f option \<Rightarrow> string \<Rightarrow> 'f entity" where
  "init name heater_entity_id sensor_entity_id target_temp temp_delta min_t max_t unit =
     \<lparr> self_attr_name = name,
       self_heater_entity_id = heater_entity_id,
       self_sensor_entity_id = sensor_entity_id,
       self_target_temperature = target_temp,
       self_temperature_delta = temp_delta,
       self_min_temp = min_t,
       self_max_temp = max_t,
       self_unit_of_measurement = unit,
       self_current_operation = STATE_ON,
       self_current_temperature = None,
       self_operation_list = [STATE_ON, STATE_OFF],
       self_attr_available = False,
       self_attr_should_poll = False \<rparr>"

definition emit :: "'f event \<Rightarrow> 'f world \<Rightarrow> 'f world" where
  "emit ev w = w\<lparr>trace := trace w @ [ev]\<rparr>"

definition async_write_ha_state :: "'f world \<Rightarrow> 'f world" where
  "async_write_ha_state w = emit (Write_ha_state (ent w)) w"

text \<open>Sequencing: a raised exception ends the coroutine, the state reached so far stays.\<close>

definition and_then ::
  "exn option \<times> 'f world \<Rightarrow> ('f world \<Rightarrow> exn option \<times> 'f world) \<Rightarrow>
   exn option \<times> 'f world" where
  "and_then r f = (case r of (None, w) \<Rightarrow> f w | (Some x, w) \<Rightarrow> (Some x, w))"

text \<open>\<^verbatim>\<open>not x\<close> for an optional float: true for \<^verbatim>\<open>None\<close> and for a zero.\<close>

definition py_not :: "'f platform \<Rightarrow> 'f option \<Rightarrow> bool" where
  "py_not pl v = (case v of None \<Rightarrow> True | Some r \<Rightarrow> float_is_zero pl r)"

definition min_temp :: "'f platform \<Rightarrow> 'f world \<Rightarrow> 'f option \<times> 'f world" where
  "min_temp pl w =
     (let w1 = (if py_not pl (self_min_temp (ent w))
                then w\<lparr>ent := (ent w)\<lparr>self_min_temp :=
                       Some (convert pl (DEFAULT_MIN_TEMP pl) (TEMP_FAHRENHEIT pl)
                               (self_unit_of_measurement (ent w)))\<rparr>\<rparr>
                else w)
      in (self_min_temp (ent w1), w1))"

definition max_temp :: "'f platform \<Rightarrow> 'f world \<Rightarrow> 'f option \<times> 'f world" where
  "max_temp pl w =
     (let w1 = (if py_not pl (self_max_temp (ent w))
                then w\<lparr>ent := (ent w)\<lparr>self_max_temp :=
                       Some (convert pl (DEFAULT_MAX_TEMP pl) (TEMP_FAHRENHEIT pl)
                               (self_unit_of_measurement (ent w)))\<rparr>\<rparr>
                else w)
      in (self_max_temp (ent w1), w1))"

definition async_heater_turn_on :: "'f world \<Rightarrow> 'f world" where
  "async_heater_turn_on w0 =
     (let w = emit Enter_heater_turn_on w0
      in case hass_states w (self_heater_entity_id (ent w)) of
           None \<Rightarrow> w
         | Some heater \<Rightarrow>
             if state heater = STATE_ON then w
             else emit (Service_call HA_DOMAIN SERVICE_TURN_ON (self_heater_entity_id (ent w))) w)"

definition async_heater_turn_off :: "'f world \<Rightarrow> 'f world" where
  "async_heater_turn_off w0 =
     (let w = emit Enter_heater_turn_off w0
      in case hass_states w (self_heater_entity_id (ent w)) of
           None \<Rightarrow> w
         | Some heater \<Rightarrow>
             if state heater = STATE_OFF then w
             else emit (Service_call HA_DOMAIN SERVICE_TURN_OFF (self_heater_entity_id (ent w))) w)"

text \<open>
  \<^verbatim>\<open>_async_control_heating\<close>. The subtraction raises \<^verbatim>\<open>TypeError\<close> when the target is
  \<^verbatim>\<open>None\<close>, the comparison when the delta is \<^verbatim>\<open>None\<close>; the state is published only when
  the branch above returned.
\<close>

definition async_control_heating :: "'f platform \<Rightarrow> 'f world \<Rightarrow> exn option \<times> 'f world" where
  "async_control_heating pl w0 =
     (let w = emit Enter_control_heating w0 in
      and_then
        (case self_current_temperature (ent w) of
           None \<Rightarrow> (None, w)
         | Some cur \<Rightarrow>
             if self_current_operation (ent w) = STATE_OFF
             then (None, async_heater_turn_off w)
             else (case self_target_temperature (ent w) of
                     None \<Rightarrow> (Some TypeError, w)
                   | Some tgt \<Rightarrow>
                       (case self_temperature_delta (ent w) of
                          None \<Rightarrow> (Some TypeError, w)
                        | Some delta \<Rightarrow>
                            if float_gt pl (float_abs pl (float_sub pl cur tgt)) delta
                            then (if float_lt pl cur tgt
                                  then (None, async_heater_turn_on w)
                                  else (None, async_heater_turn_off w))
                            else (None, w))))
        (\<lambda>w'. (None, async_write_ha_state w')))"



text \<open>A state object that is missing, or whose state is unavailable or unknown.\<close>

definition no_reading :: "'f hstate option \<Rightarrow> bool" where
  "no_reading s =
     (case s of None \<Rightarrow> True
      | Some st \<Rightarrow> state st = STATE_UNAVAILABLE \<or> state st = STATE_UNKNOWN)"

text \<open>
  \<^verbatim>\<open>async_added_to_hass\<close>. Registering the two listeners has no effect of its own here;
  the listeners are the two handlers below.
\<close>

definition async_added_to_hass :: "'f platform \<Rightarrow> 'f world \<Rightarrow> exn option \<times> 'f world" where
  "async_added_to_hass pl w0 =
     and_then
       (case last_state w0 of
          None \<Rightarrow> (None, w0)
        | Some old_state \<Rightarrow>
            and_then
              (case dict_get (attributes old_state) ATTR_TEMPERATURE of
                 PNone \<Rightarrow> (None, w0)
               | v \<Rightarrow> (case py_float pl v of
                         Inl x \<Rightarrow> (Some x, w0)
                       | Inr r \<Rightarrow>
                           (None, w0\<lparr>ent := (ent w0)\<lparr>self_target_temperature := Some r\<rparr>\<rparr>)))
              (\<lambda>w. (None, w\<lparr>ent := (ent w)\<lparr>self_current_operation := state old_state\<rparr>\<rparr>)))
       (\<lambda>w1.
          and_then
            (case hass_states w1 (self_sensor_entity_id (ent w1)) of
               None \<Rightarrow> (None, w1)
             | Some temp_sensor \<Rightarrow>
                 if \<not> no_reading (Some temp_sensor)
                 then (case py_float pl (PStr (state temp_sensor)) of
                         Inl x \<Rightarrow> (Some x, w1)
                       | Inr r \<Rightarrow>
                           (None, w1\<lparr>ent := (ent w1)\<lparr>self_current_temperature := Some r\<rparr>\<rparr>))
                 else (None, w1))
            (\<lambda>w2.
               let w3 = (case hass_states w2 (self_heater_entity_id (ent w2)) of
                           None \<Rightarrow> w2
                         | Some heater_switch \<Rightarrow>
                             if \<not> no_reading (Some heater_switch)
                             then w2\<lparr>ent := (ent w2)\<lparr>self_attr_available := True\<rparr>\<rparr>
                             else w2)
               in (None, async_write_ha_state w3)))"

text \<open>\<^verbatim>\<open>_async_sensor_changed\<close>, on an event whose \<^verbatim>\<open>new_state\<close> is the argument.\<close>

definition async_sensor_changed ::
  "'f platform \<Rightarrow> 'f hstate option \<Rightarrow> 'f world \<Rightarrow> exn option \<times> 'f world" where
  "async_sensor_changed pl new_state w =
     and_then
       (if no_reading new_state
        then (let w1 = async_heater_turn_off (emit Log_warning w)
              in (None, w1\<lparr>ent := (ent w1)\<lparr>self_current_temperature := None\<rparr>\<rparr>))
        else (case new_state of
                None \<Rightarrow> (None, w)
              | Some ns \<Rightarrow>
                  (case py_float pl (PStr (state ns)) of
                     Inl x \<Rightarrow> (Some x, w)
                   | Inr r \<Rightarrow>
                       (None, w\<lparr>ent := (ent w)\<lparr>self_current_temperature := Some r\<rparr>\<rparr>))))
       (async_control_heating pl)"

text \<open>\<^verbatim>\<open>_async_switch_changed\<close>, a synchronous callback.\<close>

definition async_switch_changed :: "'f hstate option \<Rightarrow> 'f world \<Rightarrow> 'f world" where
  "async_switch_changed new_state w =
     async_write_ha_state
       (if no_reading new_state
        then w\<lparr>ent := (ent w)\<lparr>self_attr_available := False\<rparr>\<rparr>
        else (case new_state of
                None \<Rightarrow> w
              | Some ns \<Rightarrow>
                  (let w1 = w\<lparr>ent := (ent w)\<lparr>self_attr_available := True\<rparr>\<rparr>
                   in if state ns = STATE_ON \<and> self_current_operation (ent w1) = STATE_OFF
                      then w1\<lparr>ent := (ent w1)\<lparr>self_current_operation := STATE_ON\<rparr>\<rparr>
                      else if state ns = STATE_OFF \<and> self_current_operation (ent w1) = STATE_ON
                      then w1\<lparr>ent := (ent w1)\<lparr>self_current_operation := STATE_OFF\<rparr>\<rparr>
                      else w1)))"

section \<open>Reading a run\<close>

text \<open>The events an operation added to the trace.\<close>

definition new_events :: "'f world \<Rightarrow> 'f world \<Rightarrow> 'f event list" where
  "new_events w w' = drop (length (trace w)) (trace w')"

fun is_service_call :: "'f event \<Rightarrow> bool" where
  "is_service_call (Service_call d s e) = True"
| "is_service_call _ = False"

definition service_calls :: "'f world \<Rightarrow> 'f world \<Rightarrow> 'f event list" where
  "service_calls w w' = filter is_service_call (new_events w w')"


text \<open>The host has a state for the heater and it differs from \<open>s\<close>.\<close>

definition reports_other :: "'f world \<Rightarrow> string \<Rightarrow> bool" where
  "reports_other w s =
     (case hass_states w (self_heater_entity_id (ent w)) of
        None \<Rightarrow> False | Some heater \<Rightarrow> state heater \<noteq> s)"

text \<open>What the attach operation reads: the snapshot's temperature attribute and the live states.\<close>

definition snapshot_temperature :: "'f world \<Rightarrow> 'f pyval" where
  "snapshot_temperature w =
     (case last_state w of None \<Rightarrow> PNone
      | Some old_state \<Rightarrow> dict_get (attributes old_state) ATTR_TEMPERATURE)"

definition live_sensor :: "'f world \<Rightarrow> 'f hstate option" where
  "live_sensor w = hass_states w (self_sensor_entity_id (ent w))"

definition live_heater :: "'f world \<Rightarrow> 'f hstate option" where
  "live_heater w = hass_states w (self_heater_entity_id (ent w))"


subsection \<open>Instances for the concrete runs\<close>

text \<open>
  A platform over the reals with the defaults 110 and 140 in Fahrenheit, the
  Fahrenheit-to-Celsius conversion, a \<^verbatim>\<open>float\<close> that reads the one numeral the runs below
  use, and exact float operations (on the small numbers of the runs, doubles are exact).
\<close>

definition example_platform :: "real platform" where
  "example_platform =
     \<lparr> DEFAULT_MIN_TEMP = 110, DEFAULT_MAX_TEMP = 140, TEMP_FAHRENHEIT = ''F'',
       convert = (\<lambda>v from_unit to_unit.
          if from_unit = ''F'' \<and> to_unit = ''C'' then (v - 32) * 5 / 9 else v),
       float_of_str = (\<lambda>s. if s = ''115'' then Some 115 else None),
       float_sub = (\<lambda>a b. a - b), float_abs = (\<lambda>a. \<bar>a\<bar>),
       float_gt = (\<lambda>a b. a > b), float_lt = (\<lambda>a b. a < b),
       float_is_zero = (\<lambda>a. a = 0) \<rparr>"

text \<open>
  The same platform with a subtraction that rounds \<open>- (2^53 + 1)\<close> to \<open>- 2^53\<close>, as the
  subtraction of doubles does (round to nearest, ties to even).
\<close>

definition rounding_platform :: "real platform" where
  "rounding_platform =
     example_platform\<lparr>float_sub :=
       (\<lambda>a b. if a - b = - 9007199254740993 then - 9007199254740992 else a - b)\<rparr>"

text \<open>A heater constructed with target 120, delta 2 and no limits.\<close>

definition example_entity :: "real entity" where
  "example_entity =
     init ''tank'' ''switch.tank'' ''sensor.tank'' (Some 120) (Some 2) None None ''F''"

text \<open>A host that reports the given state for the heater switch, or has none.\<close>

definition example_world :: "real entity \<Rightarrow> string option \<Rightarrow> real world" where
  "example_world e heater =
     \<lparr> ent = e,
       hass_states = (case heater of None \<Rightarrow> Map.empty
          | Some s \<Rightarrow> [self_heater_entity_id e \<mapsto> \<lparr>state = s, attributes = Map.empty\<rparr>]),
       last_state = None,
       trace = [] \<rparr>"

section \<open>Properties\<close>

subsection \<open>Frame and trace of the building blocks\<close>

lemmas example_defs =
  example_platform_def rounding_platform_def example_entity_def example_world_def init_def

lemma emit_simps:
  "trace (emit ev w) = trace w @ [ev]"
  "ent (emit ev w) = ent w"
  "hass_states (emit ev w) = hass_states w"
  "last_state (emit ev w) = last_state w"
  by (simp_all add: emit_def)

lemma reports_other_emit [simp]: "reports_other (emit ev w) s = reports_other w s"
  by (simp add: reports_other_def emit_simps)

lemma heater_turn_on_frame:
  "ent (async_heater_turn_on w) = ent w"
  "hass_states (async_heater_turn_on w) = hass_states w"
  "last_state (async_heater_turn_on w) = last_state w"
  by (simp_all add: async_heater_turn_on_def Let_def emit_simps split: option.split)

lemma heater_turn_off_frame:
  "ent (async_heater_turn_off w) = ent w"
  "hass_states (async_heater_turn_off w) = hass_states w"
  "last_state (async_heater_turn_off w) = last_state w"
  by (simp_all add: async_heater_turn_off_def Let_def emit_simps split: option.split)

lemma heater_turn_on_trace:
  "trace (async_heater_turn_on w) =
     trace w @ Enter_heater_turn_on #
       (if reports_other w STATE_ON
        then [Service_call HA_DOMAIN SERVICE_TURN_ON (self_heater_entity_id (ent w))] else [])"
  by (simp add: async_heater_turn_on_def reports_other_def Let_def emit_simps split: option.split)

lemma heater_turn_off_trace:
  "trace (async_heater_turn_off w) =
     trace w @ Enter_heater_turn_off #
       (if reports_other w STATE_OFF
        then [Service_call HA_DOMAIN SERVICE_TURN_OFF (self_heater_entity_id (ent w))] else [])"
  by (simp add: async_heater_turn_off_def reports_other_def Let_def emit_simps split: option.split)


text \<open>Without a current temperature the re-evaluation only publishes the state.\<close>

lemma control_no_reading:
  assumes "self_current_temperature (ent w) = None"
  shows "async_control_heating pl w =
    (None, w\<lparr>trace := trace w @ [Enter_control_heating, Write_ha_state (ent w)]\<rparr>)"
  using assms
  by (simp add: async_control_heating_def and_then_def Let_def emit_def async_write_ha_state_def)

text \<open>With a current temperature and the mode off the re-evaluation turns the heater off.\<close>

lemma control_off_run:
  assumes "self_current_operation (ent w) = STATE_OFF"
    and "self_current_temperature (ent w) = Some cur"
  shows "fst (async_control_heating pl w) = None"
    and "new_events w (snd (async_control_heating pl w)) =
      Enter_control_heating # Enter_heater_turn_off #
      (if reports_other w STATE_OFF
       then [Service_call HA_DOMAIN SERVICE_TURN_OFF (self_heater_entity_id (ent w))]
       else []) @ [Write_ha_state (ent w)]"
  using assms
  by (simp_all add: async_control_heating_def and_then_def Let_def emit_simps
      async_write_ha_state_def heater_turn_off_frame heater_turn_off_trace new_events_def)


subsection \<open>The dead band\<close>




subsection \<open>The failsafe\<close>

lemma sensor_no_reading_run:
  assumes "no_reading new_state"
  shows "fst (async_sensor_changed pl new_state w) = None"
    and "ent (snd (async_sensor_changed pl new_state w))
           = (ent w)\<lparr>self_current_temperature := None\<rparr>"
    and "new_events w (snd (async_sensor_changed pl new_state w)) =
      Log_warning # Enter_heater_turn_off #
      (if reports_other w STATE_OFF
       then [Service_call HA_DOMAIN SERVICE_TURN_OFF (self_heater_entity_id (ent w))] else []) @
      [Enter_control_heating,
       Write_ha_state ((ent w)\<lparr>self_current_temperature := None\<rparr>)]"
  using assms
  by (simp_all add: async_sensor_changed_def and_then_def Let_def control_no_reading
      heater_turn_off_frame heater_turn_off_trace emit_simps new_events_def)

text \<open>
  C2, amended. When the sensor's new state is missing, unavailable or unknown, the sensor
  handler returns normally, whatever the mode was: it logs the warning, enters the
  turn-off coroutine, which makes the turn-off service call exactly when the host reports
  a heater state other than off, leaves the current temperature unset, and runs a
  re-evaluation that only publishes the state. No value from before the report is kept
  as the current temperature.
\<close>

theorem sensor_failsafe:
  assumes "no_reading new_state"
  shows "fst (async_sensor_changed pl new_state w) = None \<and>
    self_current_temperature (ent (snd (async_sensor_changed pl new_state w))) = None \<and>
    service_calls w (snd (async_sensor_changed pl new_state w)) =
      (if reports_other w STATE_OFF
       then [Service_call HA_DOMAIN SERVICE_TURN_OFF (self_heater_entity_id (ent w))] else []) \<and>
    new_events w (snd (async_sensor_changed pl new_state w)) =
      Log_warning # Enter_heater_turn_off #
      (if reports_other w STATE_OFF
       then [Service_call HA_DOMAIN SERVICE_TURN_OFF (self_heater_entity_id (ent w))] else []) @
      [Enter_control_heating,
       Write_ha_state ((ent w)\<lparr>self_current_temperature := None\<rparr>)]"
  by (simp add: service_calls_def sensor_no_reading_run [OF assms])

theorem sensor_failsafe_witness:
  "no_reading (Some (\<lparr>state = STATE_UNKNOWN, attributes = Map.empty\<rparr> :: real hstate)) \<and>
   reports_other
      (example_world (example_entity\<lparr>self_current_temperature := Some 115\<rparr>) (Some STATE_ON))
      STATE_OFF \<and>
   self_current_temperature (ent (snd (async_sensor_changed example_platform
      (Some \<lparr>state = STATE_UNKNOWN, attributes = Map.empty\<rparr>)
      (example_world (example_entity\<lparr>self_current_temperature := Some 115\<rparr>) (Some STATE_ON))))) = None \<and>
   service_calls
      (example_world (example_entity\<lparr>self_current_temperature := Some 115\<rparr>) (Some STATE_ON))
      (snd (async_sensor_changed example_platform
        (Some \<lparr>state = STATE_UNKNOWN, attributes = Map.empty\<rparr>)
        (example_world (example_entity\<lparr>self_current_temperature := Some 115\<rparr>) (Some STATE_ON))))
     = [Service_call HA_DOMAIN SERVICE_TURN_OFF ''switch.tank'']"
  using sensor_failsafe
    [of "Some \<lparr>state = STATE_UNKNOWN, attributes = Map.empty\<rparr>" example_platform
        "example_world (example_entity\<lparr>self_current_temperature := Some 115\<rparr>) (Some STATE_ON)"]
  by (simp add: no_reading_def reports_other_def example_defs)

text \<open>
  The statement of C2 before the amendment fails: the sensor reports unknown while the
  host reports the heater off, and no turn-off command goes out.
\<close>

theorem sensor_failsafe_counterexample:
  "no_reading (Some (\<lparr>state = STATE_UNKNOWN, attributes = Map.empty\<rparr> :: real hstate)) \<and>
   service_calls
      (example_world (example_entity\<lparr>self_current_temperature := Some 115\<rparr>) (Some STATE_OFF))
      (snd (async_sensor_changed example_platform
        (Some \<lparr>state = STATE_UNKNOWN, attributes = Map.empty\<rparr>)
        (example_world (example_entity\<lparr>self_current_temperature := Some 115\<rparr>) (Some STATE_OFF))))
     = []"
  by (simp add: service_calls_def sensor_no_reading_run no_reading_def reports_other_def
      example_defs)

subsection \<open>Exceptions\<close>

text \<open>
  C3. A heater constructed without a target temperature receives the sensor reading 115:
  the handler sets the current temperature and the re-evaluation it awaits raises
  \<^verbatim>\<open>TypeError\<close> at the subtraction. The same holds for the re-evaluation called on a state
  with the mode on, a current temperature and no target.
\<close>

theorem control_heating_missing_target:
  "fst (async_sensor_changed example_platform
          (Some \<lparr>state = ''115'', attributes = Map.empty\<rparr>)
          (example_world (init ''tank'' ''switch.tank'' ''sensor.tank'' None (Some 2) None None ''F'')
             (Some STATE_OFF)))
     = Some TypeError \<and>
   fst (async_control_heating example_platform
          (example_world (example_entity\<lparr>self_target_temperature := None,
                                          self_current_temperature := Some 115\<rparr>) (Some STATE_OFF)))
     = Some TypeError"
  by (simp add: async_sensor_changed_def async_control_heating_def and_then_def Let_def
      no_reading_def emit_simps example_defs)

subsection \<open>The two commands\<close>

text \<open>
  C4, amended. Each command coroutine reads the heater's reported state and makes one
  service call when the host has a state that differs from the desired one, and none
  otherwise. It changes neither the entity nor the host's states, so a second call on
  unchanged reported state repeats what the first did; when the host reports the desired
  state (or none) by the time of the second call, the second call adds no service call and
  the two together make at most one.
\<close>

theorem heater_command_repeat:
  "service_calls w (async_heater_turn_on w) =
     (if reports_other w STATE_ON
      then [Service_call HA_DOMAIN SERVICE_TURN_ON (self_heater_entity_id (ent w))] else []) \<and>
   service_calls w (async_heater_turn_off w) =
     (if reports_other w STATE_OFF
      then [Service_call HA_DOMAIN SERVICE_TURN_OFF (self_heater_entity_id (ent w))] else []) \<and>
   service_calls w (async_heater_turn_on (async_heater_turn_on w)) =
     service_calls w (async_heater_turn_on w) @ service_calls w (async_heater_turn_on w) \<and>
   service_calls w (async_heater_turn_off (async_heater_turn_off w)) =
     service_calls w (async_heater_turn_off w) @ service_calls w (async_heater_turn_off w) \<and>
   (\<not> reports_other ((async_heater_turn_on w)\<lparr>hass_states := hs\<rparr>) STATE_ON \<longrightarrow>
      service_calls (async_heater_turn_on w)
        (async_heater_turn_on ((async_heater_turn_on w)\<lparr>hass_states := hs\<rparr>)) = [] \<and>
      length (service_calls w
        (async_heater_turn_on ((async_heater_turn_on w)\<lparr>hass_states := hs\<rparr>))) \<le> 1) \<and>
   (\<not> reports_other ((async_heater_turn_off w)\<lparr>hass_states := hs\<rparr>) STATE_OFF \<longrightarrow>
      service_calls (async_heater_turn_off w)
        (async_heater_turn_off ((async_heater_turn_off w)\<lparr>hass_states := hs\<rparr>)) = [] \<and>
      length (service_calls w
        (async_heater_turn_off ((async_heater_turn_off w)\<lparr>hass_states := hs\<rparr>))) \<le> 1)"
  by (simp add: service_calls_def new_events_def heater_turn_on_trace heater_turn_off_trace
      heater_turn_on_frame heater_turn_off_frame reports_other_def)

theorem heater_command_repeat_witness:
  "reports_other (example_world example_entity (Some STATE_OFF)) STATE_ON \<and>
   \<not> reports_other
      ((async_heater_turn_on (example_world example_entity (Some STATE_OFF)))
         \<lparr>hass_states := [''switch.tank'' \<mapsto> \<lparr>state = STATE_ON, attributes = Map.empty\<rparr>]\<rparr>)
      STATE_ON \<and>
   service_calls (example_world example_entity (Some STATE_OFF))
      (async_heater_turn_on (example_world example_entity (Some STATE_OFF)))
     = [Service_call HA_DOMAIN SERVICE_TURN_ON ''switch.tank''] \<and>
   length (service_calls (example_world example_entity (Some STATE_OFF))
      (async_heater_turn_on
        ((async_heater_turn_on (example_world example_entity (Some STATE_OFF)))
           \<lparr>hass_states := [''switch.tank'' \<mapsto> \<lparr>state = STATE_ON, attributes = Map.empty\<rparr>]\<rparr>)))
     \<le> 1"
  using heater_command_repeat
    [of "example_world example_entity (Some STATE_OFF)"
        "[''switch.tank'' \<mapsto> \<lparr>state = STATE_ON, attributes = Map.empty\<rparr>]"]
  by (simp add: reports_other_def heater_turn_on_frame example_defs)

text \<open>
  The statement of C4 before the amendment fails: with the heater reported unavailable,
  two turn-off commands in a row, the reported state unchanged between them, make two
  service calls.
\<close>

theorem heater_command_repeat_counterexample:
  "hass_states (async_heater_turn_off (example_world example_entity (Some STATE_UNAVAILABLE)))
     = hass_states (example_world example_entity (Some STATE_UNAVAILABLE)) \<and>
   service_calls (example_world example_entity (Some STATE_UNAVAILABLE))
     (async_heater_turn_off (async_heater_turn_off
        (example_world example_entity (Some STATE_UNAVAILABLE))))
     = [Service_call HA_DOMAIN SERVICE_TURN_OFF ''switch.tank'',
        Service_call HA_DOMAIN SERVICE_TURN_OFF ''switch.tank'']"
  by (simp add: service_calls_def new_events_def heater_turn_off_trace heater_turn_off_frame
      reports_other_def example_defs)

text \<open>
  C10. When the host has no state object for the heater, both command coroutines return
  right after they are entered, without a service call, and the failsafe run of the
  sensor handler makes no service call either.
\<close>

theorem no_heater_state_no_command:
  assumes "hass_states w (self_heater_entity_id (ent w)) = None"
  shows "new_events w (async_heater_turn_on w) = [Enter_heater_turn_on] \<and>
    new_events w (async_heater_turn_off w) = [Enter_heater_turn_off] \<and>
    (no_reading new_state \<longrightarrow>
       service_calls w (snd (async_sensor_changed pl new_state w)) = [])"
proof -
  have r: "\<not> reports_other w s" for s
    using assms by (simp add: reports_other_def)
  show ?thesis
    by (simp add: new_events_def heater_turn_on_trace heater_turn_off_trace r service_calls_def
        sensor_no_reading_run(3) [unfolded new_events_def])
qed

theorem no_heater_state_no_command_witness:
  "hass_states (example_world example_entity None)
     (self_heater_entity_id (ent (example_world example_entity None))) = None \<and>
   no_reading (None :: real hstate option) \<and>
   new_events (example_world example_entity None)
     (async_heater_turn_on (example_world example_entity None)) = [Enter_heater_turn_on] \<and>
   service_calls (example_world example_entity None)
     (snd (async_sensor_changed example_platform None (example_world example_entity None))) = []"
  using no_heater_state_no_command [of "example_world example_entity None" None example_platform]
  by (simp add: no_reading_def example_defs)

subsection \<open>The switch handler\<close>

text \<open>
  C5. On a missing, unavailable or unknown new state the switch handler clears the
  availability flag and changes nothing else. On any other state it sets the flag, turns
  the mode on when the switch reports on while the mode is off, turns the mode off when
  the switch reports off while the mode is on, and otherwise keeps the mode. In every
  case all it adds to the trace is the publication of the resulting state: no
  re-evaluation, no command.
\<close>

theorem switch_changed_sync:
  "(no_reading new_state \<longrightarrow>
      ent (async_switch_changed new_state w) = (ent w)\<lparr>self_attr_available := False\<rparr>) \<and>
   (\<forall>ns. new_state = Some ns \<and> \<not> no_reading new_state \<longrightarrow>
      self_attr_available (ent (async_switch_changed new_state w)) \<and>
      (state ns = STATE_ON \<and> self_current_operation (ent w) = STATE_OFF \<longrightarrow>
         self_current_operation (ent (async_switch_changed new_state w)) = STATE_ON) \<and>
      (state ns = STATE_OFF \<and> self_current_operation (ent w) = STATE_ON \<longrightarrow>
         self_current_operation (ent (async_switch_changed new_state w)) = STATE_OFF) \<and>
      (\<not> (state ns = STATE_ON \<and> self_current_operation (ent w) = STATE_OFF) \<and>
       \<not> (state ns = STATE_OFF \<and> self_current_operation (ent w) = STATE_ON) \<longrightarrow>
         self_current_operation (ent (async_switch_changed new_state w))
           = self_current_operation (ent w))) \<and>
   new_events w (async_switch_changed new_state w)
     = [Write_ha_state (ent (async_switch_changed new_state w))]"
  by (cases new_state)
     (auto simp: async_switch_changed_def async_write_ha_state_def emit_simps Let_def
        new_events_def no_reading_def)

theorem switch_changed_sync_witness:
  "\<not> no_reading (Some (\<lparr>state = STATE_ON, attributes = Map.empty\<rparr> :: real hstate)) \<and>
   self_current_operation (example_entity\<lparr>self_current_operation := STATE_OFF\<rparr>) = STATE_OFF \<and>
   self_attr_available (ent (async_switch_changed
       (Some \<lparr>state = STATE_ON, attributes = Map.empty\<rparr>)
       (example_world (example_entity\<lparr>self_current_operation := STATE_OFF\<rparr>) (Some STATE_ON)))) \<and>
   self_current_operation (ent (async_switch_changed
       (Some \<lparr>state = STATE_ON, attributes = Map.empty\<rparr>)
       (example_world (example_entity\<lparr>self_current_operation := STATE_OFF\<rparr>) (Some STATE_ON))))
     = STATE_ON"
  using switch_changed_sync
    [of "Some \<lparr>state = STATE_ON, attributes = Map.empty\<rparr>"
        "example_world (example_entity\<lparr>self_current_operation := STATE_OFF\<rparr>) (Some STATE_ON)"]
  by (simp add: no_reading_def example_defs)

subsection \<open>The limits\<close>

text \<open>A limit that is set and not a zero is returned as it is, and nothing changes.\<close>

lemma min_temp_cached:
  "self_min_temp (ent w) = Some v \<Longrightarrow> \<not> float_is_zero pl v \<Longrightarrow> min_temp pl w = (Some v, w)"
  by (simp add: min_temp_def py_not_def)

lemma max_temp_cached:
  "self_max_temp (ent w) = Some v \<Longrightarrow> \<not> float_is_zero pl v \<Longrightarrow> max_temp pl w = (Some v, w)"
  by (simp add: max_temp_def py_not_def)

text \<open>
  C6. A heater configured in Celsius with both limits set to 0: the minimum accessor
  returns the converted default \<open>(110 - 32) * 5 / 9 = 130 / 3\<close> and the maximum accessor
  the converted default \<open>(140 - 32) * 5 / 9 = 60\<close>, not the configured 0.
\<close>

theorem min_temp_configured_zero:
  "fst (min_temp example_platform
          (example_world (init ''tank'' ''switch.tank'' ''sensor.tank'' (Some 50) (Some 2)
                            (Some 0) (Some 0) ''C'') None))
     = Some (130 / 3) \<and>
   fst (max_temp example_platform
          (example_world (init ''tank'' ''switch.tank'' ''sensor.tank'' (Some 50) (Some 2)
                            (Some 0) (Some 0) ''C'') None))
     = Some 60"
  by (simp add: min_temp_def max_temp_def py_not_def Let_def example_defs)

subsection \<open>The mode off\<close>

text \<open>
  C8, amended. With the mode off the re-evaluation returns normally and never enters the
  turn-on coroutine. It enters the turn-off coroutine exactly when a current temperature
  is set, whatever the target and the delta are (they may be unset), and the turn-off
  service call is made exactly when a current temperature is set and the host reports a
  heater state other than off; no other service call is made.
\<close>

theorem control_heating_mode_off:
  assumes "self_current_operation (ent w) = STATE_OFF"
  shows "fst (async_control_heating pl w) = None \<and>
    service_calls w (snd (async_control_heating pl w)) =
      (if self_current_temperature (ent w) \<noteq> None \<and> reports_other w STATE_OFF
       then [Service_call HA_DOMAIN SERVICE_TURN_OFF (self_heater_entity_id (ent w))] else []) \<and>
    Enter_heater_turn_on \<notin> set (new_events w (snd (async_control_heating pl w))) \<and>
    (Enter_heater_turn_off \<in> set (new_events w (snd (async_control_heating pl w)))
       \<longleftrightarrow> self_current_temperature (ent w) \<noteq> None)"
proof (cases "self_current_temperature (ent w)")
  case None
  then show ?thesis
    by (simp add: control_no_reading service_calls_def new_events_def)
next
  case (Some cur)
  note run = control_off_run [OF assms Some, of pl]
  show ?thesis
    using Some by (simp add: run service_calls_def)
qed

theorem control_heating_mode_off_witness:
  "self_current_operation (ent (example_world
      (example_entity\<lparr>self_current_operation := STATE_OFF, self_current_temperature := Some 115,
         self_target_temperature := None\<rparr>) (Some STATE_ON))) = STATE_OFF \<and>
   reports_other (example_world
      (example_entity\<lparr>self_current_operation := STATE_OFF, self_current_temperature := Some 115,
         self_target_temperature := None\<rparr>) (Some STATE_ON)) STATE_OFF \<and>
   service_calls
     (example_world
      (example_entity\<lparr>self_current_operation := STATE_OFF, self_current_temperature := Some 115,
         self_target_temperature := None\<rparr>) (Some STATE_ON))
     (snd (async_control_heating example_platform (example_world
      (example_entity\<lparr>self_current_operation := STATE_OFF, self_current_temperature := Some 115,
         self_target_temperature := None\<rparr>) (Some STATE_ON))))
     = [Service_call HA_DOMAIN SERVICE_TURN_OFF ''switch.tank'']"
  using control_heating_mode_off
    [of "example_world
      (example_entity\<lparr>self_current_operation := STATE_OFF, self_current_temperature := Some 115,
         self_target_temperature := None\<rparr>) (Some STATE_ON)" example_platform]
  by (simp add: reports_other_def example_defs)

text \<open>
  The statement of C8 before the amendment fails in two ways. With the mode off, the
  heater reported on and no current temperature yet, the re-evaluation only publishes the
  state. With the mode off, the reading 115 and the heater already reported off, no
  turn-off command goes out.
\<close>

theorem control_heating_mode_off_counterexample:
  "self_current_operation (ent (example_world
      (example_entity\<lparr>self_current_operation := STATE_OFF\<rparr>) (Some STATE_ON))) = STATE_OFF \<and>
   new_events
     (example_world (example_entity\<lparr>self_current_operation := STATE_OFF\<rparr>) (Some STATE_ON))
     (snd (async_control_heating example_platform
        (example_world (example_entity\<lparr>self_current_operation := STATE_OFF\<rparr>) (Some STATE_ON))))
     = [Enter_control_heating, Write_ha_state (example_entity\<lparr>self_current_operation := STATE_OFF\<rparr>)] \<and>
   service_calls
     (example_world (example_entity\<lparr>self_current_operation := STATE_OFF,
        self_current_temperature := Some 115\<rparr>) (Some STATE_OFF))
     (snd (async_control_heating example_platform
        (example_world (example_entity\<lparr>self_current_operation := STATE_OFF,
           self_current_temperature := Some 115\<rparr>) (Some STATE_OFF))))
     = []"
  by (simp add: service_calls_def new_events_def async_control_heating_def and_then_def
      Let_def emit_simps async_write_ha_state_def heater_turn_off_frame
      heater_turn_off_trace reports_other_def example_defs)

subsection \<open>Attaching\<close>

lemma added_trace:
  "new_events w (snd (async_added_to_hass pl w)) =
     (case fst (async_added_to_hass pl w) of
        None \<Rightarrow> [Write_ha_state (ent (snd (async_added_to_hass pl w)))]
      | Some x \<Rightarrow> [])"
  by (simp add: async_added_to_hass_def and_then_def Let_def async_write_ha_state_def
      emit_simps new_events_def split: option.split pyval.split sum.split)

lemma added_returns:
  "fst (async_added_to_hass pl w) = None \<longleftrightarrow>
     (snapshot_temperature w = PNone \<or> (\<exists>r. py_float pl (snapshot_temperature w) = Inr r)) \<and>
     (no_reading (live_sensor w) \<or>
      (\<exists>s r. live_sensor w = Some s \<and> float_of_str pl (state s) = Some r))"
  by (auto simp: async_added_to_hass_def and_then_def Let_def async_write_ha_state_def
      emit_simps snapshot_temperature_def live_sensor_def no_reading_def
      split: option.split pyval.split sum.split)

lemma added_fields:
  assumes "fst (async_added_to_hass pl w) = None"
  shows "snapshot_temperature w = PNone \<longrightarrow>
       self_target_temperature (ent (snd (async_added_to_hass pl w)))
         = self_target_temperature (ent w)"
    and "\<forall>r. py_float pl (snapshot_temperature w) = Inr r \<longrightarrow>
       self_target_temperature (ent (snd (async_added_to_hass pl w))) = Some r"
    and "self_current_operation (ent (snd (async_added_to_hass pl w))) =
       (case last_state w of None \<Rightarrow> self_current_operation (ent w)
        | Some old_state \<Rightarrow> state old_state)"
    and "self_current_temperature (ent (snd (async_added_to_hass pl w))) =
       (case live_sensor w of None \<Rightarrow> self_current_temperature (ent w)
        | Some temp_sensor \<Rightarrow>
            if no_reading (Some temp_sensor) then self_current_temperature (ent w)
            else float_of_str pl (state temp_sensor))"
    and "self_attr_available (ent (snd (async_added_to_hass pl w))) =
       (self_attr_available (ent w) \<or> \<not> no_reading (live_heater w))"
  using assms
  by (auto simp: async_added_to_hass_def and_then_def Let_def async_write_ha_state_def
      emit_simps snapshot_temperature_def live_sensor_def live_heater_def no_reading_def
      split: option.splits pyval.splits sum.splits if_splits)


text \<open>
  C7. Whatever the snapshot and the live states are, the attach operation adds to the
  trace nothing but one publication of the state, as its last step, when it returns, and
  nothing at all when a conversion raises: no service call, no command coroutine, no
  re-evaluation. It returns exactly when the snapshot's temperature attribute is absent
  or converts to a number and the live sensor state is missing, unavailable, unknown or
  converts to a number. When it returns, the target is the snapshot's temperature if the
  snapshot has one and is kept otherwise, the mode is the snapshot's state if there is a
  snapshot and is kept otherwise, the current temperature is the live reading if that
  is valid and is kept otherwise, and the availability flag is set if the live heater
  state is valid and is kept otherwise (it is false after construction).
\<close>

theorem added_to_hass_no_command:
  "new_events w (snd (async_added_to_hass pl w)) =
     (case fst (async_added_to_hass pl w) of
        None \<Rightarrow> [Write_ha_state (ent (snd (async_added_to_hass pl w)))]
      | Some x \<Rightarrow> []) \<and>
   (fst (async_added_to_hass pl w) = None \<longleftrightarrow>
     (snapshot_temperature w = PNone \<or> (\<exists>r. py_float pl (snapshot_temperature w) = Inr r)) \<and>
     (no_reading (live_sensor w) \<or>
      (\<exists>s r. live_sensor w = Some s \<and> float_of_str pl (state s) = Some r))) \<and>
   (fst (async_added_to_hass pl w) = None \<longrightarrow>
     (snapshot_temperature w = PNone \<longrightarrow>
       self_target_temperature (ent (snd (async_added_to_hass pl w)))
         = self_target_temperature (ent w)) \<and>
     (\<forall>r. py_float pl (snapshot_temperature w) = Inr r \<longrightarrow>
       self_target_temperature (ent (snd (async_added_to_hass pl w))) = Some r) \<and>
     self_current_operation (ent (snd (async_added_to_hass pl w))) =
       (case last_state w of None \<Rightarrow> self_current_operation (ent w)
        | Some old_state \<Rightarrow> state old_state) \<and>
     self_current_temperature (ent (snd (async_added_to_hass pl w))) =
       (case live_sensor w of None \<Rightarrow> self_current_temperature (ent w)
        | Some temp_sensor \<Rightarrow>
            if no_reading (Some temp_sensor) then self_current_temperature (ent w)
            else float_of_str pl (state temp_sensor)) \<and>
     self_attr_available (ent (snd (async_added_to_hass pl w))) =
       (self_attr_available (ent w) \<or> \<not> no_reading (live_heater w)))"
  using added_trace [of w pl] added_returns [of pl w] added_fields [of pl w]
  by blast

theorem added_to_hass_no_command_witness:
  "snapshot_temperature ((example_world example_entity None)
      \<lparr>last_state := Some \<lparr>state = STATE_OFF, attributes = [ATTR_TEMPERATURE \<mapsto> PNum 130]\<rparr>\<rparr>)
     = PNum 130 \<and>
   no_reading (live_sensor ((example_world example_entity None)
      \<lparr>last_state := Some \<lparr>state = STATE_OFF, attributes = [ATTR_TEMPERATURE \<mapsto> PNum 130]\<rparr>\<rparr>)) \<and>
   async_added_to_hass example_platform ((example_world example_entity None)
      \<lparr>last_state := Some \<lparr>state = STATE_OFF, attributes = [ATTR_TEMPERATURE \<mapsto> PNum 130]\<rparr>\<rparr>)
     = (None, (example_world
           (example_entity\<lparr>self_target_temperature := Some 130, self_current_operation := STATE_OFF\<rparr>)
           None)
         \<lparr>last_state := Some \<lparr>state = STATE_OFF, attributes = [ATTR_TEMPERATURE \<mapsto> PNum 130]\<rparr>,
          trace := [Write_ha_state
            (example_entity\<lparr>self_target_temperature := Some 130,
               self_current_operation := STATE_OFF\<rparr>)]\<rparr>)"
  using added_to_hass_no_command [of "(example_world example_entity None)
      \<lparr>last_state := Some \<lparr>state = STATE_OFF, attributes = [ATTR_TEMPERATURE \<mapsto> PNum 130]\<rparr>\<rparr>"
      example_platform]
  by (simp add: snapshot_temperature_def live_sensor_def dict_get_def no_reading_def
      async_added_to_hass_def and_then_def async_write_ha_state_def emit_def example_defs)

subsection \<open>The mode invariant\<close>





text \<open>
  Restoring a snapshot whose state is unavailable leaves unavailable as the mode: the
  reads of the live sensor and heater states in the same operation guard against this
  string, the read of the snapshot's state does not.
\<close>

lemma added_to_hass_restores_unavailable:
  "self_current_operation (ent (snd (async_added_to_hass example_platform
      ((example_world example_entity (Some STATE_OFF))
         \<lparr>last_state := Some \<lparr>state = STATE_UNAVAILABLE, attributes = Map.empty\<rparr>\<rparr>))))
     = STATE_UNAVAILABLE"
  by (simp add: added_fields(3) added_returns snapshot_temperature_def live_sensor_def
      dict_get_def no_reading_def example_defs)

end
